theory Spec2Isabelle
  imports Main
begin

section \<open>Python values used by scrape.py\<close>

text \<open>
  The exceptions the pipeline can raise. \<open>ValueError\<close> comes from \<open>int(...)\<close>,
  \<open>IndexError\<close> from \<open>subtext[index]\<close>, \<open>KeyError\<close> from \<open>a_tag["href"]\<close>.
  A function of the source that may raise returns \<open>py_error + 'a\<close>, with \<open>Inl\<close> the
  exception; nothing in scrape.py catches an exception.
\<close>

datatype py_error = ValueError | IndexError | KeyError

subsection \<open>The document tree\<close>

text \<open>
  The tree that BeautifulSoup builds. An attribute value is a string, or a list of
  strings for the multi-valued attributes (\<open>class\<close> among them). A tag has a name, its
  attribute dictionary and its children; a child is a tag, a text node
  (\<open>NavigableString\<close>), or a string node that \<open>get_text\<close> leaves out (a comment, a
  declaration), here \<open>Comment\<close>. Characters are HOL's \<open>char\<close>: code points below 256.
\<close>

datatype attr_value = Str string | StrList "string list"

datatype tag = Tag (name: string) (attrs: "(string \<times> attr_value) list")
                   (contents: "page_element list")
and page_element = Element tag | NavigableString string | Comment string

text \<open>\<open>Tag.descendants\<close>: every node below the tag, in document order, the tag itself not
  included.\<close>

fun descendants :: "tag \<Rightarrow> page_element list"
and below :: "page_element \<Rightarrow> page_element list" where
  "descendants (Tag n as cs) = concat (map (\<lambda>c. c # below c) cs)"
| "below (Element t) = descendants t"
| "below (NavigableString s) = []"
| "below (Comment s) = []"

fun the_tags :: "page_element list \<Rightarrow> tag list" where
  "the_tags [] = []"
| "the_tags (Element t # es) = t # the_tags es"
| "the_tags (NavigableString s # es) = the_tags es"
| "the_tags (Comment s # es) = the_tags es"

fun the_strings :: "page_element list \<Rightarrow> string list" where
  "the_strings [] = []"
| "the_strings (NavigableString s # es) = s # the_strings es"
| "the_strings (Element t # es) = the_strings es"
| "the_strings (Comment s # es) = the_strings es"

text \<open>\<open>tag.find(nm)\<close>: the first descendant tag of that name, or \<open>None\<close>.\<close>

definition find_tag :: "tag \<Rightarrow> string \<Rightarrow> tag option" where
  "find_tag t nm =
     (case filter (\<lambda>d. name d = nm) (the_tags (descendants t)) of
        [] \<Rightarrow> None
      | d # _ \<Rightarrow> Some d)"

text \<open>\<open>tag.get(key)\<close> is a dictionary lookup that gives \<open>None\<close> for a missing key;
  \<open>tag[key]\<close> raises \<open>KeyError\<close> there.\<close>

definition get :: "tag \<Rightarrow> string \<Rightarrow> attr_value option" where
  "get t key = map_of (attrs t) key"

definition getitem :: "tag \<Rightarrow> string \<Rightarrow> py_error + attr_value" where
  "getitem t key = (case map_of (attrs t) key of None \<Rightarrow> Inl KeyError | Some v \<Rightarrow> Inr v)"

text \<open>Truth value of what \<open>get\<close> returns: \<open>None\<close>, the empty string and the empty list
  are false.\<close>

fun truthy :: "attr_value option \<Rightarrow> bool" where
  "truthy None = False"
| "truthy (Some (Str s)) = (s \<noteq> [])"
| "truthy (Some (StrList l)) = (l \<noteq> [])"

text \<open>\<open>tag.getText()\<close>: the text nodes below the tag, concatenated.\<close>

definition getText :: "tag \<Rightarrow> string" where
  "getText t = concat (the_strings (descendants t))"

text \<open>
  \<open>tag.select(".c")\<close>: the descendant tags that carry the class \<open>c\<close>, in document order.
  The classes of a tag are the entries of its \<open>class\<close> attribute when that is a list, and
  the maximal runs of characters other than space, tab, CR, LF and FF when it is a string.
\<close>

definition html_space :: "char \<Rightarrow> bool" where
  "html_space c = (c \<in> set [CHR '' '', CHR 0x09, CHR 0x0D, CHR 0x0A, CHR 0x0C])"

function not_ws_findall :: "string \<Rightarrow> string list" where
  "not_ws_findall [] = []"
| "not_ws_findall (c # cs) =
     (if html_space c then not_ws_findall cs
      else takeWhile (\<lambda>x. \<not> html_space x) (c # cs)
           # not_ws_findall (dropWhile (\<lambda>x. \<not> html_space x) cs))"
  by pat_completeness auto
termination
  by (relation "measure length") (auto simp: le_imp_less_Suc length_dropWhile_le)

fun get_classes :: "tag \<Rightarrow> string list" where
  "get_classes t =
     (case map_of (attrs t) ''class'' of
        None \<Rightarrow> []
      | Some (StrList l) \<Rightarrow> l
      | Some (Str s) \<Rightarrow> not_ws_findall s)"

definition select_class :: "tag \<Rightarrow> string \<Rightarrow> tag list" where
  "select_class t c = filter (\<lambda>d. c \<in> set (get_classes d)) (the_tags (descendants t))"

subsection \<open>Strings and integers\<close>

text \<open>\<open>s.replace(old, new)\<close>: every occurrence of \<open>old\<close>, found from the left without
  overlap, becomes \<open>new\<close>; for an empty \<open>old\<close>, \<open>new\<close> goes before every character and
  at the end.\<close>

function replace_all :: "string \<Rightarrow> string \<Rightarrow> string \<Rightarrow> string" where
  "replace_all old new [] = []"
| "replace_all old new (c # cs) =
     (if old \<noteq> [] \<and> take (length old) (c # cs) = old
      then new @ replace_all old new (drop (length old) (c # cs))
      else c # replace_all old new cs)"
  by pat_completeness auto
termination
  by (relation "measure (\<lambda>(old, new, s). length s)") auto

definition str_replace :: "string \<Rightarrow> string \<Rightarrow> string \<Rightarrow> string" where
  "str_replace s old new =
     (if old = [] then new @ concat (map (\<lambda>c. c # new) s) else replace_all old new s)"

text \<open>
  \<open>int(s)\<close> for a string, base 10, as CPython reads it: whitespace, an optional sign,
  decimal digits in which single underscores may separate digits, whitespace, and
  nothing else; anything else is a \<open>ValueError\<close>, and so is a literal of more than
  \<open>int_max_str_digits\<close> digits (the interpreter's default limit). Below code point 256
  the whitespace of \<open>int\<close> is tab, LF, VT, FF, CR, space, NEL and the no-break space.
\<close>

definition is_space :: "char \<Rightarrow> bool" where
  "is_space c = ((of_char c :: nat) \<in> set [9, 10, 11, 12, 13, 32, 133, 160])"

definition is_digit :: "char \<Rightarrow> bool" where
  "is_digit c = (48 \<le> (of_char c :: nat) \<and> (of_char c :: nat) \<le> 57)"

definition digit_value :: "char \<Rightarrow> int" where
  "digit_value c = int (of_char c) - 48"

definition decimal :: "string \<Rightarrow> int" where
  "decimal ds = foldl (\<lambda>n c. 10 * n + digit_value c) 0 ds"

definition int_max_str_digits :: nat where
  "int_max_str_digits = 4300"

fun underscores_ok :: "string \<Rightarrow> bool" where
  "underscores_ok [] = True"
| "underscores_ok [c] = (c \<noteq> CHR ''_'')"
| "underscores_ok (c # d # cs) =
     (\<not> (c = CHR ''_'' \<and> d = CHR ''_'') \<and> underscores_ok (d # cs))"

definition strip_sign :: "string \<Rightarrow> string" where
  "strip_sign s =
     (case s of
        [] \<Rightarrow> []
      | c # cs \<Rightarrow> if c = CHR ''+'' \<or> c = CHR ''-'' then cs else c # cs)"

definition is_negative :: "string \<Rightarrow> bool" where
  "is_negative s = (case s of [] \<Rightarrow> False | c # cs \<Rightarrow> c = CHR ''-'')"

definition py_int :: "string \<Rightarrow> py_error + int" where
  "py_int s =
     (let s1 = dropWhile is_space s;
          s2 = strip_sign s1;
          body = takeWhile (\<lambda>c. is_digit c \<or> c = CHR ''_'') s2;
          rest = dropWhile (\<lambda>c. is_digit c \<or> c = CHR ''_'') s2;
          digits = filter is_digit body
      in if body \<noteq> [] \<and> hd body \<noteq> CHR ''_'' \<and> underscores_ok body
            \<and> length digits \<le> int_max_str_digits
            \<and> dropWhile is_space rest = []
         then Inr (if is_negative s1 then - decimal digits else decimal digits)
         else Inl ValueError)"

section \<open>scrape.py\<close>

text \<open>A story is the dictionary with the keys \<open>Title\<close>, \<open>href\<close> and \<open>Score\<close> that
  \<open>create_story\<close> builds.\<close>

record story =
  Title :: string
  href :: attr_value
  Score :: int

text \<open>
  \<^verbatim>\<open>vote = subtext_item.select(".score")\<close>
  \<^verbatim>\<open>return int(vote[0].getText().replace(" points", "")) if vote else 0\<close>
\<close>

definition extract_score :: "tag \<Rightarrow> py_error + int" where
  "extract_score subtext_item =
     (let vote = select_class subtext_item ''score''
      in if vote \<noteq> [] then py_int (str_replace (getText (hd vote)) '' points'' '''')
         else Inr 0)"

text \<open>
  \<^verbatim>\<open>a_tag = link.find("a")\<close>
  \<^verbatim>\<open>if a_tag and a_tag.get("href"):\<close>
  \<^verbatim>\<open>    title = a_tag.getText()\<close>
  \<^verbatim>\<open>    score = extract_score(subtext_item)\<close>
  \<^verbatim>\<open>    return ({"Title": title, "href": a_tag["href"], "Score": score}\<close>
  \<^verbatim>\<open>            if score > 100 else None)\<close>
  A tag is always true, so \<open>a_tag\<close> is false only when it is \<open>None\<close>; falling off the end
  of the function returns \<open>None\<close>.
\<close>

definition create_story :: "tag \<Rightarrow> tag \<Rightarrow> py_error + story option" where
  "create_story link subtext_item =
     (case find_tag link ''a'' of
        None \<Rightarrow> Inr None
      | Some a_tag \<Rightarrow>
          if truthy (get a_tag ''href'') then
            (let title = getText a_tag in
             case extract_score subtext_item of
               Inl e \<Rightarrow> Inl e
             | Inr score \<Rightarrow>
                 if score > 100 then
                   (case getitem a_tag ''href'' of
                      Inl e \<Rightarrow> Inl e
                    | Inr h \<Rightarrow> Inr (Some \<lparr>Title = title, href = h, Score = score\<rparr>))
                 else Inr None)
          else Inr None)"

text \<open>
  \<open>sorted(xs, key=f, reverse=r)\<close>. Python's sort is stable; with \<open>reverse\<close> it reverses
  the list, sorts it stably in ascending order of the key and reverses the result, which
  keeps elements of equal key in their original order. \<open>sort_key\<close> is the stable sort of
  HOL.
\<close>

definition sorted_py :: "('a \<Rightarrow> int) \<Rightarrow> bool \<Rightarrow> 'a list \<Rightarrow> 'a list" where
  "sorted_py f reverse xs = (if reverse then rev (sort_key f (rev xs)) else sort_key f xs)"

definition sort_stories_by_votes :: "story list \<Rightarrow> story list" where
  "sort_stories_by_votes stories = sorted_py Score True stories"

text \<open>
  \<^verbatim>\<open>filtered_stories = []\<close>
  \<^verbatim>\<open>for index, link in enumerate(links):\<close>
  \<^verbatim>\<open>    story = create_story(link, subtext[index])\<close>
  \<^verbatim>\<open>    if story:\<close>
  \<^verbatim>\<open>        filtered_stories.append(story)\<close>
  \<^verbatim>\<open>return sort_stories_by_votes(filtered_stories)\<close>
  \<open>hn_loop\<close> is the loop from position \<open>index\<close> on, over the links not yet visited;
  \<open>subtext[index]\<close> raises \<open>IndexError\<close> when \<open>index\<close> is not below the length of
  \<open>subtext\<close>. A story dictionary has three keys, so it is true.
\<close>

fun hn_loop :: "nat \<Rightarrow> tag list \<Rightarrow> tag list \<Rightarrow> story list \<Rightarrow> py_error + story list" where
  "hn_loop index [] subtext filtered_stories = Inr filtered_stories"
| "hn_loop index (link # links) subtext filtered_stories =
     (if index < length subtext then
        (case create_story link (subtext ! index) of
           Inl e \<Rightarrow> Inl e
         | Inr None \<Rightarrow> hn_loop (Suc index) links subtext filtered_stories
         | Inr (Some story) \<Rightarrow> hn_loop (Suc index) links subtext (filtered_stories @ [story]))
      else Inl IndexError)"

definition create_custom_hn :: "tag list \<Rightarrow> tag list \<Rightarrow> py_error + story list" where
  "create_custom_hn links subtext =
     (case hn_loop 0 links subtext [] of
        Inl e \<Rightarrow> Inl e
      | Inr filtered_stories \<Rightarrow> Inr (sort_stories_by_votes filtered_stories))"

subsection \<open>The list objects of \<open>sort_stories_by_votes\<close>\<close>

text \<open>
  A store of list objects, for what \<open>sort_stories_by_votes\<close> does to the list it is given:
  address \<open>a\<close> holds the list \<open>h ! a\<close>. \<open>sorted(stories, ...)\<close> builds a new list object
  from the elements of its argument (\<open>list_new\<close>), sorts that object in place
  (\<open>list_sort\<close>) and returns its address. \<open>None\<close> stands for an address that holds no
  object, which no Python reference is.
\<close>

type_synonym store = "story list list"

definition list_new :: "store \<Rightarrow> nat \<Rightarrow> (nat \<times> store) option" where
  "list_new h src = (if src < length h then Some (length h, h @ [h ! src]) else None)"

definition list_sort :: "store \<Rightarrow> nat \<Rightarrow> store option" where
  "list_sort h a =
     (if a < length h then Some (h[a := sorted_py Score True (h ! a)]) else None)"

definition sort_stories_by_votes_store :: "store \<Rightarrow> nat \<Rightarrow> (nat \<times> store) option" where
  "sort_stories_by_votes_store h stories =
     (case list_new h stories of
        None \<Rightarrow> None
      | Some (a, h1) \<Rightarrow>
          (case list_sort h1 a of
             None \<Rightarrow> None
           | Some h2 \<Rightarrow> Some (a, h2)))"

section \<open>Definitions used in statements and proofs\<close>

text \<open>
  The loop of \<open>create_custom_hn\<close> as a recursion over the two lists side by side:
  \<open>hn_loop_pairs_run\<close> below proves that it computes what the indexed loop computes.
\<close>

fun pairs_run :: "tag list \<Rightarrow> tag list \<Rightarrow> py_error + story list" where
  "pairs_run [] ss = Inr []"
| "pairs_run (l # ls) [] = Inl IndexError"
| "pairs_run (l # ls) (s # ss) =
     (case create_story l s of
        Inl e \<Rightarrow> Inl e
      | Inr r \<Rightarrow>
          (case pairs_run ls ss of
             Inl e \<Rightarrow> Inl e
           | Inr rest \<Rightarrow> Inr (case r of None \<Rightarrow> rest | Some st \<Rightarrow> st # rest)))"

text \<open>The shape of a score text in the words of the specification, \<open>"<digits> points"\<close>:
  one or more decimal digits followed by the suffix \<open>" points"\<close>.\<close>

definition digits_points :: "string \<Rightarrow> bool" where
  "digits_points txt =
     (let n = length txt - length '' points''
      in 0 < n \<and> drop n txt = '' points'' \<and> filter is_digit (take n txt) = take n txt)"

text \<open>The run the specification describes for sequences of unequal length: both cut to
  the length of the shorter one.\<close>

definition truncated_run :: "tag list \<Rightarrow> tag list \<Rightarrow> py_error + story list" where
  "truncated_run links subtext =
     (let n = min (length links) (length subtext)
      in create_custom_hn (take n links) (take n subtext))"

text \<open>Two fragments of the front page, as the examples use them: a \<open>titleline\<close> cell with
  its anchor, and a \<open>subtext\<close> cell with a score element of the given text.\<close>

definition titleline :: "string \<Rightarrow> string \<Rightarrow> tag" where
  "titleline title url =
     Tag ''span'' [(''class'', StrList [''titleline''])]
       [Element (Tag ''a'' [(''href'', Str url)] [NavigableString title])]"

definition subtext_cell :: "string \<Rightarrow> tag" where
  "subtext_cell txt =
     Tag ''td'' [(''class'', StrList [''subtext''])]
       [Element (Tag ''span'' [(''class'', StrList [''score'']), (''id'', Str ''score_1'')]
          [NavigableString txt]),
        NavigableString '' by '',
        Element (Tag ''a'' [(''href'', Str ''user?id=pg''), (''class'', StrList [''hnuser''])]
          [NavigableString ''pg''])]"

section \<open>Exceptions of the pipeline\<close>

lemma py_int_error: "py_int s = Inl e \<Longrightarrow> e = ValueError"
  by (simp add: py_int_def Let_def split: if_splits)

lemma extract_score_error: "extract_score t = Inl e \<Longrightarrow> e = ValueError"
  by (auto simp: extract_score_def Let_def split: if_splits dest: py_int_error)

lemma getitem_get: "truthy (get t k) \<Longrightarrow> \<exists>v. get t k = Some v \<and> getitem t k = Inr v"
  by (cases "map_of (attrs t) k") (auto simp: get_def getitem_def)

text \<open>\<open>a_tag["href"]\<close> is only reached after \<open>a_tag.get("href")\<close> was true, so the only
  exception of \<open>create_story\<close> is the \<open>ValueError\<close> of \<open>int\<close>.\<close>

lemma create_story_error: "create_story l s = Inl e \<Longrightarrow> e = ValueError"
  by (auto simp: create_story_def Let_def split: option.splits if_splits sum.splits
      dest: extract_score_error getitem_get)

lemma create_story_Some: "create_story l s = Inr (Some st) \<Longrightarrow> 100 < Score st"
  by (auto simp: create_story_def Let_def split: option.splits if_splits sum.splits)

section \<open>The loop of \<open>create_custom_hn\<close>\<close>

lemma hn_loop_pairs_run:
  "hn_loop i links subtext acc =
     (case pairs_run links (drop i subtext) of Inl e \<Rightarrow> Inl e | Inr r \<Rightarrow> Inr (acc @ r))"
proof (induction links arbitrary: i acc)
  case Nil
  show ?case by simp
next
  case (Cons l ls)
  show ?case
  proof (cases "i < length subtext")
    case True
    then have d: "drop i subtext = subtext ! i # drop (Suc i) subtext"
      by (simp add: Cons_nth_drop_Suc)
    show ?thesis
      using True by (simp add: d Cons.IH split: sum.splits option.splits)
  next
    case False
    then show ?thesis by simp
  qed
qed

lemma create_custom_hn_pairs_run:
  "create_custom_hn links subtext =
     (case pairs_run links subtext of Inl e \<Rightarrow> Inl e | Inr r \<Rightarrow> Inr (sort_stories_by_votes r))"
  by (simp add: create_custom_hn_def hn_loop_pairs_run split: sum.splits)

lemma pairs_run_scores: "pairs_run ls ss = Inr r \<Longrightarrow> st \<in> set r \<Longrightarrow> 100 < Score st"
proof (induction ls ss arbitrary: r rule: pairs_run.induct)
  case (3 l ls s ss)
  then show ?case
    by (auto split: sum.splits option.splits dest: create_story_Some)
qed simp_all

lemma pairs_run_append:
  "length ls = length ss \<Longrightarrow>
   pairs_run (ls @ ls') (ss @ ss') =
     (case pairs_run ls ss of
        Inl e \<Rightarrow> Inl e
      | Inr r \<Rightarrow> (case pairs_run ls' ss' of Inl e \<Rightarrow> Inl e | Inr r' \<Rightarrow> Inr (r @ r')))"
proof (induction ls ss rule: list_induct2)
  case Nil
  show ?case by (simp split: sum.splits)
next
  case (Cons l ls s ss)
  then show ?case by (simp split: sum.splits option.splits)
qed

lemma pairs_run_error: "length ls \<le> length ss \<Longrightarrow> pairs_run ls ss = Inl e \<Longrightarrow> e = ValueError"
proof (induction ls ss rule: pairs_run.induct)
  case (3 l ls s ss)
  then show ?case
    by (auto split: sum.splits dest: create_story_error)
qed simp_all

lemma pairs_run_take:
  "length ls \<le> length ss \<Longrightarrow> pairs_run ls (take (length ls) ss) = pairs_run ls ss"
proof (induction ls ss rule: pairs_run.induct)
  case (3 l ls s ss)
  then show ?case by (simp split: sum.splits)
qed simp_all

lemma pairs_run_short:
  "length ss < length ls \<Longrightarrow>
   pairs_run ls ss =
     (case pairs_run (take (length ss) ls) ss of Inl e \<Rightarrow> Inl e | Inr r \<Rightarrow> Inl IndexError)"
proof (induction ls ss rule: pairs_run.induct)
  case (3 l ls s ss)
  then show ?case by (simp split: sum.splits)
qed simp_all

section \<open>The sort\<close>

lemma set_sort_stories: "set (sort_stories_by_votes xs) = set xs"
  by (simp add: sort_stories_by_votes_def sorted_py_def)

lemma length_sort_stories: "length (sort_stories_by_votes xs) = length xs"
  by (simp add: sort_stories_by_votes_def sorted_py_def)

lemma sort_stories_desc:
  "Suc i < length (sort_stories_by_votes xs) \<Longrightarrow>
     Score (sort_stories_by_votes xs ! Suc i) \<le> Score (sort_stories_by_votes xs ! i)"
proof -
  let ?ys = "sort_stories_by_votes xs"
  assume i: "Suc i < length ?ys"
  have "sorted (rev (map Score ?ys))"
    by (simp add: sort_stories_by_votes_def sorted_py_def rev_map [symmetric])
  then have "\<forall>j. Suc j < length (map Score ?ys) \<longrightarrow> map Score ?ys ! Suc j \<le> map Score ?ys ! j"
    by (simp only: sorted_rev_iff_nth_Suc)
  with i show ?thesis by simp
qed

lemma sort_stories_stable:
  "filter (\<lambda>st. Score st = k) (sort_stories_by_votes xs) = filter (\<lambda>st. Score st = k) xs"
proof -
  have "filter (\<lambda>st. Score st = k) (rev (sort_key Score (rev xs)))
        = rev (filter (\<lambda>st. Score st = k) (sort_key Score (rev xs)))"
    by (simp add: rev_filter)
  also have "\<dots> = rev (filter (\<lambda>st. Score st = k) (rev xs))"
    by (simp only: sort_key_stable)
  also have "\<dots> = filter (\<lambda>st. Score st = k) xs"
    by (simp add: rev_filter [symmetric])
  finally show ?thesis
    by (simp add: sort_stories_by_votes_def sorted_py_def)
qed

text \<open>Two elements that pass a filter in some order stand in that order in the list.\<close>

lemma filter_split:
  "filter P zs = u @ x # r \<Longrightarrow> \<exists>a b. zs = a @ x # b \<and> filter P b = r"
proof (induction zs arbitrary: u)
  case Nil
  then show ?case by simp
next
  case (Cons z zs)
  show ?case
  proof (cases "P z")
    case False
    with Cons.prems have "filter P zs = u @ x # r" by simp
    then obtain a b where "zs = a @ x # b" and "filter P b = r"
      using Cons.IH by blast
    then have "z # zs = (z # a) @ x # b \<and> filter P b = r" by simp
    then show ?thesis by blast
  next
    case True
    with Cons.prems have eq: "z # filter P zs = u @ x # r" by simp
    show ?thesis
    proof (cases u)
      case Nil
      with eq have "z # zs = [] @ x # zs \<and> filter P zs = r" by simp
      then show ?thesis by blast
    next
      case (Cons h u')
      with eq have "filter P zs = u' @ x # r" by simp
      then obtain a b where "zs = a @ x # b" and "filter P b = r"
        using Cons.IH by blast
      then have "z # zs = (z # a) @ x # b \<and> filter P b = r" by simp
      then show ?thesis by blast
    qed
  qed
qed

lemma filter_two_in_order:
  assumes "filter P zs = u @ x # v @ y # w"
  shows "\<exists>a b c. zs = a @ x # b @ y # c"
proof -
  from filter_split [OF assms] obtain a r where zs: "zs = a @ x # r"
    and r: "filter P r = v @ y # w"
    by blast
  from filter_split [OF r] obtain b c where "r = b @ y # c"
    by blast
  with zs show ?thesis by blast
qed

lemma sort_stories_keeps_order:
  assumes "Score x = Score y"
  shows "\<exists>a b c. sort_stories_by_votes (as @ x # bs @ y # cs) = a @ x # b @ y # c"
proof -
  let ?P = "\<lambda>st. Score st = Score x"
  have "filter ?P (sort_stories_by_votes (as @ x # bs @ y # cs))
        = filter ?P as @ x # filter ?P bs @ y # filter ?P cs"
    using assms by (simp add: sort_stories_stable)
  then show ?thesis by (rule filter_two_in_order)
qed

section \<open>Score texts of the shape the page uses\<close>

text \<open>A text made of decimal digits and the suffix \<open>" points"\<close> is read as the number
  its digits write, up to the digit limit of \<open>int\<close>.\<close>

lemma is_digit_not_other:
  assumes "is_digit c"
  shows "\<not> is_space c" and "c \<noteq> CHR ''+''" and "c \<noteq> CHR ''-''" and "c \<noteq> CHR ''_''"
    and "c \<noteq> CHR '' ''"
  using assms by (auto simp: is_digit_def is_space_def)

lemma replace_all_digits:
  "\<forall>c \<in> set ds. is_digit c \<Longrightarrow> replace_all '' points'' '''' (ds @ '' points'') = ds"
proof (induction ds)
  case Nil
  show ?case by simp
next
  case (Cons c cs)
  then have "c \<noteq> CHR '' ''"
    by (simp add: is_digit_not_other)
  with Cons show ?case by simp
qed

lemma underscores_ok_digits: "\<forall>c \<in> set ds. c \<noteq> CHR ''_'' \<Longrightarrow> underscores_ok ds"
  by (induction ds rule: underscores_ok.induct) simp_all

lemma py_int_digits:
  assumes "ds \<noteq> []" and digits: "\<forall>c \<in> set ds. is_digit c"
    and "length ds \<le> int_max_str_digits"
  shows "py_int ds = Inr (decimal ds)"
proof -
  from assms obtain c cs where ds: "ds = c # cs" and c: "is_digit c"
    by (cases ds) auto
  have s1: "dropWhile is_space ds = ds"
    using ds c by (simp add: is_digit_not_other)
  have s2: "strip_sign ds = ds"
    using ds c by (simp add: strip_sign_def is_digit_not_other)
  have neg: "\<not> is_negative ds"
    using ds c by (simp add: is_negative_def is_digit_not_other)
  have body: "takeWhile (\<lambda>c. is_digit c \<or> c = CHR ''_'') ds = ds"
    using digits by (simp add: takeWhile_eq_all_conv)
  have rest: "dropWhile (\<lambda>c. is_digit c \<or> c = CHR ''_'') ds = []"
    using digits by simp
  have filt: "filter is_digit ds = ds"
    using digits by simp
  have ok: "underscores_ok ds"
    using digits by (auto intro: underscores_ok_digits dest: is_digit_not_other(4))
  have hd: "hd ds \<noteq> CHR ''_''"
    using ds c by (simp add: is_digit_not_other)
  show ?thesis
    using assms(1,3) by (simp add: py_int_def s1 s2 neg body rest filt ok hd)
qed

lemma extract_score_digits_points:
  assumes "select_class subtext_item ''score'' = v # vs"
    and "getText v = ds @ '' points''"
    and "ds \<noteq> []" and "\<forall>c \<in> set ds. is_digit c" and "length ds \<le> int_max_str_digits"
  shows "extract_score subtext_item = Inr (decimal ds)"
  using assms by (simp add: extract_score_def str_replace_def replace_all_digits py_int_digits)

section \<open>Claims\<close>

text \<open>
  C1 (threshold). Whenever \<open>create_custom_hn\<close> returns a list, for any two lists of link
  and metadata nodes, every story of that list has a score strictly greater than 100:
  no story of score 100 or less is in the output.
\<close>

theorem threshold_property:
  "create_custom_hn links subtext = Inr out \<Longrightarrow> \<forall>st \<in> set out. 100 < Score st"
  by (auto simp: create_custom_hn_pairs_run set_sort_stories split: sum.splits
      dest: pairs_run_scores)

text \<open>C1 at three pairs scoring 150, 99 and 100: only the story of score 150 is returned.\<close>

theorem threshold_property_witness:
  "create_custom_hn
     [titleline ''Foo'' ''http://a'', titleline ''Bar'' ''http://b'', titleline ''Baz'' ''item?id=3'']
     [subtext_cell ''150 points'', subtext_cell ''99 points'', subtext_cell ''100 points'']
   = Inr [\<lparr>Title = ''Foo'', href = Str ''http://a'', Score = 150\<rparr>]
   \<and> 100 < Score \<lparr>Title = ''Foo'', href = Str ''http://a'', Score = 150\<rparr>"
proof -
  have run: "create_custom_hn
     [titleline ''Foo'' ''http://a'', titleline ''Bar'' ''http://b'', titleline ''Baz'' ''item?id=3'']
     [subtext_cell ''150 points'', subtext_cell ''99 points'', subtext_cell ''100 points'']
   = Inr [\<lparr>Title = ''Foo'', href = Str ''http://a'', Score = 150\<rparr>]"
    by code_simp
  from threshold_property [OF run] show ?thesis
    using run by simp
qed

text \<open>
  C2 (sort). The list that \<open>sort_stories_by_votes\<close> returns is in descending order of
  score: each story's score is at least the score of the story after it. The same holds
  of every list that \<open>create_custom_hn\<close> returns.
\<close>

theorem sort_property:
  "(\<forall>i. Suc i < length (sort_stories_by_votes stories) \<longrightarrow>
        Score (sort_stories_by_votes stories ! Suc i) \<le> Score (sort_stories_by_votes stories ! i))
   \<and> (\<forall>out i. create_custom_hn links subtext = Inr out \<and> Suc i < length out \<longrightarrow>
        Score (out ! Suc i) \<le> Score (out ! i))"
proof (intro conjI allI impI)
  fix i
  assume "Suc i < length (sort_stories_by_votes stories)"
  then show "Score (sort_stories_by_votes stories ! Suc i) \<le> Score (sort_stories_by_votes stories ! i)"
    by (rule sort_stories_desc)
next
  fix out i
  assume a: "create_custom_hn links subtext = Inr out \<and> Suc i < length out"
  then obtain r where out: "out = sort_stories_by_votes r"
    by (auto simp: create_custom_hn_pairs_run split: sum.splits)
  with a show "Score (out ! Suc i) \<le> Score (out ! i)"
    by (simp add: sort_stories_desc)
qed

text \<open>C2 at the scores 150, 500, 300, which come out as 500, 300, 150, and at a run
  of the pipeline on two pairs.\<close>

theorem sort_property_witness:
  "Suc 0 < length (sort_stories_by_votes
      [\<lparr>Title = ''A'', href = Str ''a'', Score = 150\<rparr>,
       \<lparr>Title = ''B'', href = Str ''b'', Score = 500\<rparr>,
       \<lparr>Title = ''C'', href = Str ''c'', Score = 300\<rparr>])
   \<and> sort_stories_by_votes
      [\<lparr>Title = ''A'', href = Str ''a'', Score = 150\<rparr>,
       \<lparr>Title = ''B'', href = Str ''b'', Score = 500\<rparr>,
       \<lparr>Title = ''C'', href = Str ''c'', Score = 300\<rparr>]
     = [\<lparr>Title = ''B'', href = Str ''b'', Score = 500\<rparr>,
        \<lparr>Title = ''C'', href = Str ''c'', Score = 300\<rparr>,
        \<lparr>Title = ''A'', href = Str ''a'', Score = 150\<rparr>]
   \<and> Score (sort_stories_by_votes
      [\<lparr>Title = ''A'', href = Str ''a'', Score = 150\<rparr>,
       \<lparr>Title = ''B'', href = Str ''b'', Score = 500\<rparr>,
       \<lparr>Title = ''C'', href = Str ''c'', Score = 300\<rparr>] ! Suc 0)
     \<le> Score (sort_stories_by_votes
      [\<lparr>Title = ''A'', href = Str ''a'', Score = 150\<rparr>,
       \<lparr>Title = ''B'', href = Str ''b'', Score = 500\<rparr>,
       \<lparr>Title = ''C'', href = Str ''c'', Score = 300\<rparr>] ! 0)
   \<and> create_custom_hn
        [titleline ''Foo'' ''http://a'', titleline ''Bar'' ''http://b'']
        [subtext_cell ''150 points'', subtext_cell ''500 points'']
     = Inr [\<lparr>Title = ''Bar'', href = Str ''http://b'', Score = 500\<rparr>,
            \<lparr>Title = ''Foo'', href = Str ''http://a'', Score = 150\<rparr>]
   \<and> Score ([\<lparr>Title = ''Bar'', href = Str ''http://b'', Score = 500\<rparr>,
              \<lparr>Title = ''Foo'', href = Str ''http://a'', Score = 150\<rparr>] ! Suc 0)
     \<le> Score ([\<lparr>Title = ''Bar'', href = Str ''http://b'', Score = 500\<rparr>,
              \<lparr>Title = ''Foo'', href = Str ''http://a'', Score = 150\<rparr>] ! 0)"
proof -
  have run: "create_custom_hn
        [titleline ''Foo'' ''http://a'', titleline ''Bar'' ''http://b'']
        [subtext_cell ''150 points'', subtext_cell ''500 points'']
     = Inr [\<lparr>Title = ''Bar'', href = Str ''http://b'', Score = 500\<rparr>,
            \<lparr>Title = ''Foo'', href = Str ''http://a'', Score = 150\<rparr>]"
    by code_simp
  from sort_property [where stories = "[\<lparr>Title = ''A'', href = Str ''a'', Score = 150\<rparr>,
       \<lparr>Title = ''B'', href = Str ''b'', Score = 500\<rparr>,
       \<lparr>Title = ''C'', href = Str ''c'', Score = 300\<rparr>]"
      and links = "[titleline ''Foo'' ''http://a'', titleline ''Bar'' ''http://b'']"
      and subtext = "[subtext_cell ''150 points'', subtext_cell ''500 points'']"]
  show ?thesis
    using run by (simp add: sort_stories_by_votes_def sorted_py_def)
qed

text \<open>
  C3 (stability). For every score \<open>k\<close>, the stories of score \<open>k\<close> stand in the output of
  \<open>sort_stories_by_votes\<close> in the order they have in the input; and when a story \<open>x\<close>
  stands before a story \<open>y\<close> of the same score in the input, \<open>x\<close> stands before \<open>y\<close> in
  the output.
\<close>

theorem stability_property:
  "filter (\<lambda>st. Score st = k) (sort_stories_by_votes stories)
     = filter (\<lambda>st. Score st = k) stories
   \<and> (stories = as @ x # bs @ y # cs \<and> Score x = Score y \<longrightarrow>
        (\<exists>a b c. sort_stories_by_votes stories = a @ x # b @ y # c))"
  by (auto simp: sort_stories_stable sort_stories_keeps_order)

text \<open>C3 at scenario C: X and Y both score 500, X first, a story of score 700 between
  them; the output has X before Y.\<close>

theorem stability_property_witness:
  "[\<lparr>Title = ''X'', href = Str ''x'', Score = 500\<rparr>,
    \<lparr>Title = ''Z'', href = Str ''z'', Score = 700\<rparr>,
    \<lparr>Title = ''Y'', href = Str ''y'', Score = 500\<rparr>]
     = [] @ \<lparr>Title = ''X'', href = Str ''x'', Score = 500\<rparr>
          # [\<lparr>Title = ''Z'', href = Str ''z'', Score = 700\<rparr>]
          @ \<lparr>Title = ''Y'', href = Str ''y'', Score = 500\<rparr> # []
   \<and> Score \<lparr>Title = ''X'', href = Str ''x'', Score = 500\<rparr>
     = Score \<lparr>Title = ''Y'', href = Str ''y'', Score = 500\<rparr>
   \<and> sort_stories_by_votes
        [\<lparr>Title = ''X'', href = Str ''x'', Score = 500\<rparr>,
         \<lparr>Title = ''Z'', href = Str ''z'', Score = 700\<rparr>,
         \<lparr>Title = ''Y'', href = Str ''y'', Score = 500\<rparr>]
     = [\<lparr>Title = ''Z'', href = Str ''z'', Score = 700\<rparr>]
         @ \<lparr>Title = ''X'', href = Str ''x'', Score = 500\<rparr>
         # [] @ \<lparr>Title = ''Y'', href = Str ''y'', Score = 500\<rparr> # []
   \<and> filter (\<lambda>st. Score st = 500)
     (sort_stories_by_votes
        [\<lparr>Title = ''X'', href = Str ''x'', Score = 500\<rparr>,
         \<lparr>Title = ''Z'', href = Str ''z'', Score = 700\<rparr>,
         \<lparr>Title = ''Y'', href = Str ''y'', Score = 500\<rparr>])
     = [\<lparr>Title = ''X'', href = Str ''x'', Score = 500\<rparr>,
        \<lparr>Title = ''Y'', href = Str ''y'', Score = 500\<rparr>]"
  using stability_property [of 500
        "[\<lparr>Title = ''X'', href = Str ''x'', Score = 500\<rparr>,
         \<lparr>Title = ''Z'', href = Str ''z'', Score = 700\<rparr>,
         \<lparr>Title = ''Y'', href = Str ''y'', Score = 500\<rparr>]"
        "[]" "\<lparr>Title = ''X'', href = Str ''x'', Score = 500\<rparr>"
        "[\<lparr>Title = ''Z'', href = Str ''z'', Score = 700\<rparr>]"
        "\<lparr>Title = ''Y'', href = Str ''y'', Score = 500\<rparr>" "[]"]
  by (simp add: sort_stories_by_votes_def sorted_py_def)

text \<open>
  C4, as stated, fails. The texts \<open>"150"\<close> and \<open>" 150 points"\<close> are not of the shape
  \<open>"<digits> points"\<close>, yet \<open>extract_score\<close> reads 150 from the first without raising, and
  the pipeline returns a story of score 150 for the second: \<open>replace\<close> leaves a text
  without the suffix as it is, and \<open>int\<close> accepts surrounding whitespace, a sign and
  underscores between digits. And a run does not abort on the text \<open>"1 point"\<close> when the
  paired link node has no anchor: \<open>extract_score\<close> is not called for that pair.
\<close>

theorem nonconforming_text_parsed:
  "\<not> digits_points ''150''
   \<and> extract_score
       (Tag ''td'' [(''class'', StrList [''subtext''])]
          [Element (Tag ''span'' [(''class'', StrList [''score''])] [NavigableString ''150''])])
     = Inr 150
   \<and> \<not> digits_points '' 150 points''
   \<and> create_custom_hn
       [Tag ''span'' [(''class'', StrList [''titleline''])]
          [Element (Tag ''a'' [(''href'', Str ''http://a'')] [NavigableString ''Foo''])]]
       [Tag ''td'' [(''class'', StrList [''subtext''])]
          [Element (Tag ''span'' [(''class'', StrList [''score''])]
             [NavigableString '' 150 points''])]]
     = Inr [\<lparr>Title = ''Foo'', href = Str ''http://a'', Score = 150\<rparr>]
   \<and> \<not> digits_points ''1 point''
   \<and> create_custom_hn
       [Tag ''span'' [(''class'', StrList [''titleline''])] [NavigableString ''Foo'']]
       [Tag ''td'' [(''class'', StrList [''subtext''])]
          [Element (Tag ''span'' [(''class'', StrList [''score''])]
             [NavigableString ''1 point''])]]
     = Inr []"
  by code_simp

text \<open>
  C4, amended. If the metadata node has a score element and \<open>int\<close> rejects the text of
  the first one once every \<open>" points"\<close> is removed from it, \<open>extract_score\<close> raises
  \<open>ValueError\<close>. Nothing catches it: \<open>create_story\<close> raises it for every link that has
  an anchor with a true \<open>href\<close>, and \<open>create_custom_hn\<close> then ends in \<open>ValueError\<close> and
  returns no list, whatever the pairs before and after are.
\<close>

theorem parse_error_propagates:
  assumes vote: "select_class subtext_item ''score'' = v # vs"
    and bad: "py_int (str_replace (getText v) '' points'' '''') = Inl ValueError"
  shows "extract_score subtext_item = Inl ValueError
     \<and> (find_tag link ''a'' = Some a_tag \<and> truthy (get a_tag ''href'') \<longrightarrow>
          create_story link subtext_item = Inl ValueError
          \<and> (length ls = length ss \<longrightarrow>
               create_custom_hn (ls @ link # ls') (ss @ subtext_item # ss') = Inl ValueError))"
proof (intro conjI impI)
  show score: "extract_score subtext_item = Inl ValueError"
    using vote bad by (simp add: extract_score_def)
  assume a: "find_tag link ''a'' = Some a_tag \<and> truthy (get a_tag ''href'')"
  then show story: "create_story link subtext_item = Inl ValueError"
    using score by (simp add: create_story_def)
  assume len: "length ls = length ss"
  have here: "pairs_run (link # ls') (subtext_item # ss') = Inl ValueError"
    using story by simp
  show "create_custom_hn (ls @ link # ls') (ss @ subtext_item # ss') = Inl ValueError"
  proof (cases "pairs_run ls ss")
    case (Inl e)
    with len have "e = ValueError"
      using pairs_run_error [of ls ss e] by simp
    with Inl len show ?thesis
      by (simp add: create_custom_hn_pairs_run pairs_run_append)
  next
    case (Inr r)
    with len here show ?thesis
      by (simp add: create_custom_hn_pairs_run pairs_run_append)
  qed
qed

text \<open>C4 amended, at the singular \<open>"1 point"\<close> in the second of three pairs: the run
  ends in \<open>ValueError\<close>, and the story of the first pair is not returned.\<close>

theorem parse_error_propagates_witness:
  "select_class (subtext_cell ''1 point'') ''score''
     = [Tag ''span'' [(''class'', StrList [''score'']), (''id'', Str ''score_1'')]
          [NavigableString ''1 point'']]
   \<and> py_int (str_replace ''1 point'' '' points'' '''') = Inl ValueError
   \<and> extract_score (subtext_cell ''1 point'') = Inl ValueError
   \<and> create_story (titleline ''Bar'' ''http://b'') (subtext_cell ''1 point'') = Inl ValueError
   \<and> create_custom_hn
        [titleline ''Foo'' ''http://a'', titleline ''Bar'' ''http://b'', titleline ''Baz'' ''http://c'']
        [subtext_cell ''150 points'', subtext_cell ''1 point'', subtext_cell ''300 points'']
      = Inl ValueError"
proof -
  let ?v = "Tag ''span'' [(''class'', StrList [''score'']), (''id'', Str ''score_1'')]
          [NavigableString ''1 point'']"
  let ?a = "Tag ''a'' [(''href'', Str ''http://b'')] [NavigableString ''Bar'']"
  have vote: "select_class (subtext_cell ''1 point'') ''score'' = ?v # []"
    by code_simp
  have inner: "getText ?v = ''1 point''"
    by code_simp
  have bad: "py_int (str_replace (getText ?v) '' points'' '''') = Inl ValueError"
    by code_simp
  have anchor: "find_tag (titleline ''Bar'' ''http://b'') ''a'' = Some ?a \<and> truthy (get ?a ''href'')"
    by code_simp
  have len: "length [titleline ''Foo'' ''http://a''] = length [subtext_cell ''150 points'']"
    by simp
  from parse_error_propagates [OF vote bad, where link = "titleline ''Bar'' ''http://b''"
      and a_tag = ?a and ls = "[titleline ''Foo'' ''http://a'']" and ss = "[subtext_cell ''150 points'']"
      and ls' = "[titleline ''Baz'' ''http://c'']" and ss' = "[subtext_cell ''300 points'']"]
  show ?thesis
    using vote bad inner anchor len by simp
qed

text \<open>
  C5, as stated, fails. With one link node and no metadata node, \<open>subtext[0]\<close> raises
  \<open>IndexError\<close>; the run cut to the shorter sequence would return the empty list.
\<close>

theorem shorter_subtext_raises:
  "create_custom_hn [Tag ''span'' [(''class'', StrList [''titleline''])] []] [] = Inl IndexError
   \<and> truncated_run [Tag ''span'' [(''class'', StrList [''titleline''])] []] [] = Inr []"
  by code_simp

text \<open>
  C5, amended. When \<open>subtext\<close> is the longer sequence, the run is the run on \<open>subtext\<close> cut
  to the length of \<open>links\<close>: the metadata nodes beyond it are never read. When \<open>links\<close> is
  the longer sequence, nothing is cut: the run raises, with the exception of the pairs
  that exist if one of them raises, and with \<open>IndexError\<close> otherwise.
\<close>

theorem length_mismatch:
  "(length links \<le> length subtext \<longrightarrow>
      create_custom_hn links subtext = create_custom_hn links (take (length links) subtext))
   \<and> (length subtext < length links \<longrightarrow>
      create_custom_hn links subtext =
        (case create_custom_hn (take (length subtext) links) subtext of
           Inl e \<Rightarrow> Inl e
         | Inr r \<Rightarrow> Inl IndexError))"
proof (intro conjI impI)
  assume "length links \<le> length subtext"
  then show "create_custom_hn links subtext = create_custom_hn links (take (length links) subtext)"
    by (simp add: create_custom_hn_pairs_run pairs_run_take)
next
  assume "length subtext < length links"
  then have "pairs_run links subtext =
      (case pairs_run (take (length subtext) links) subtext of
         Inl e \<Rightarrow> Inl e | Inr r \<Rightarrow> Inl IndexError)"
    by (rule pairs_run_short)
  then show "create_custom_hn links subtext =
        (case create_custom_hn (take (length subtext) links) subtext of
           Inl e \<Rightarrow> Inl e
         | Inr r \<Rightarrow> Inl IndexError)"
    by (simp add: create_custom_hn_pairs_run split: sum.splits)
qed

text \<open>C5 amended, at one link with two metadata nodes (the second, unread, would not
  parse), and at two links with one metadata node.\<close>

theorem length_mismatch_witness:
  "length [titleline ''Foo'' ''http://a''] \<le> length [subtext_cell ''150 points'', subtext_cell ''1 point'']
   \<and> create_custom_hn [titleline ''Foo'' ''http://a''] [subtext_cell ''150 points'', subtext_cell ''1 point'']
     = Inr [\<lparr>Title = ''Foo'', href = Str ''http://a'', Score = 150\<rparr>]
   \<and> create_custom_hn [titleline ''Foo'' ''http://a''] [subtext_cell ''150 points'']
     = Inr [\<lparr>Title = ''Foo'', href = Str ''http://a'', Score = 150\<rparr>]
   \<and> length [subtext_cell ''150 points''] < length [titleline ''Foo'' ''http://a'', titleline ''Bar'' ''http://b'']
   \<and> create_custom_hn [titleline ''Foo'' ''http://a'', titleline ''Bar'' ''http://b''] [subtext_cell ''150 points'']
     = Inl IndexError"
proof -
  have one: "create_custom_hn [titleline ''Foo'' ''http://a''] [subtext_cell ''150 points'']
     = Inr [\<lparr>Title = ''Foo'', href = Str ''http://a'', Score = 150\<rparr>]"
    by code_simp
  from length_mismatch [of "[titleline ''Foo'' ''http://a'']"
      "[subtext_cell ''150 points'', subtext_cell ''1 point'']"]
    length_mismatch [of "[titleline ''Foo'' ''http://a'', titleline ''Bar'' ''http://b'']"
      "[subtext_cell ''150 points'']"]
  show ?thesis
    using one by simp
qed

text \<open>Scenario A's score text.\<close>

lemma score_150: "py_int (str_replace ''150 points'' '' points'' '''') = Inr 150"
  by code_simp

text \<open>
  C6 (scenario A). For a link node whose anchor (the one \<open>find\<close> returns) has the text
  \<open>"Foo"\<close> and the href \<open>"http://a"\<close>, paired with a metadata node whose first score
  element has the text \<open>"150 points"\<close>, \<open>create_story\<close> returns the story with title
  \<open>"Foo"\<close>, href \<open>"http://a"\<close> and score 150, and the pipeline on that one pair returns
  exactly that story.
\<close>

theorem scenario_A:
  assumes anchor: "find_tag link ''a'' = Some a_tag"
    and title: "getText a_tag = ''Foo''"
    and url: "get a_tag ''href'' = Some (Str ''http://a'')"
    and vote: "select_class subtext_item ''score'' = v # vs"
    and points: "getText v = ''150 points''"
  shows "create_story link subtext_item
           = Inr (Some \<lparr>Title = ''Foo'', href = Str ''http://a'', Score = 150\<rparr>)
     \<and> create_custom_hn [link] [subtext_item]
           = Inr [\<lparr>Title = ''Foo'', href = Str ''http://a'', Score = 150\<rparr>]"
proof -
  have score: "extract_score subtext_item = Inr 150"
    using vote points by (simp add: extract_score_def score_150)
  have item: "getitem a_tag ''href'' = Inr (Str ''http://a'')"
    using url by (simp add: get_def getitem_def)
  have story: "create_story link subtext_item
           = Inr (Some \<lparr>Title = ''Foo'', href = Str ''http://a'', Score = 150\<rparr>)"
    using anchor title url score item by (simp add: create_story_def)
  have "sort_stories_by_votes [\<lparr>Title = ''Foo'', href = Str ''http://a'', Score = 150\<rparr>]
          = [\<lparr>Title = ''Foo'', href = Str ''http://a'', Score = 150\<rparr>]"
    by (simp add: sort_stories_by_votes_def sorted_py_def)
  with story show ?thesis
    by (simp add: create_custom_hn_def)
qed

text \<open>C6 at a \<open>titleline\<close> cell and a \<open>subtext\<close> cell of the page.\<close>

theorem scenario_A_witness:
  "find_tag (titleline ''Foo'' ''http://a'') ''a''
     = Some (Tag ''a'' [(''href'', Str ''http://a'')] [NavigableString ''Foo''])
   \<and> select_class (subtext_cell ''150 points'') ''score''
     = [Tag ''span'' [(''class'', StrList [''score'']), (''id'', Str ''score_1'')]
          [NavigableString ''150 points'']]
   \<and> create_story (titleline ''Foo'' ''http://a'') (subtext_cell ''150 points'')
     = Inr (Some \<lparr>Title = ''Foo'', href = Str ''http://a'', Score = 150\<rparr>)
   \<and> create_custom_hn [titleline ''Foo'' ''http://a''] [subtext_cell ''150 points'']
     = Inr [\<lparr>Title = ''Foo'', href = Str ''http://a'', Score = 150\<rparr>]"
proof -
  let ?a = "Tag ''a'' [(''href'', Str ''http://a'')] [NavigableString ''Foo'']"
  let ?v = "Tag ''span'' [(''class'', StrList [''score'']), (''id'', Str ''score_1'')]
          [NavigableString ''150 points'']"
  have anchor: "find_tag (titleline ''Foo'' ''http://a'') ''a'' = Some ?a"
    by code_simp
  have title: "getText ?a = ''Foo''"
    by code_simp
  have url: "get ?a ''href'' = Some (Str ''http://a'')"
    by code_simp
  have vote: "select_class (subtext_cell ''150 points'') ''score'' = ?v # []"
    by code_simp
  have points: "getText ?v = ''150 points''"
    by code_simp
  from scenario_A [OF anchor title url vote points] show ?thesis
    using anchor vote by simp
qed

text \<open>
  C7 (skip). If the link node has no anchor below it, or the anchor that \<open>find\<close> returns
  has no \<open>href\<close> attribute, \<open>create_story\<close> returns \<open>None\<close> and raises nothing, for every
  metadata node: the metadata node is not read.
\<close>

theorem skip_property:
  assumes "find_tag link ''a'' = None
           \<or> (\<exists>a_tag. find_tag link ''a'' = Some a_tag \<and> get a_tag ''href'' = None)"
  shows "create_story link subtext_item = Inr None"
  using assms by (auto simp: create_story_def)

text \<open>C7 at a link node without an anchor, and at one whose anchor has no \<open>href\<close>,
  paired with a metadata node whose score text would not parse.\<close>

theorem skip_property_witness:
  "find_tag (Tag ''span'' [(''class'', StrList [''titleline''])] [NavigableString ''Foo'']) ''a'' = None
   \<and> create_story (Tag ''span'' [(''class'', StrList [''titleline''])] [NavigableString ''Foo''])
        (subtext_cell ''500 points'') = Inr None
   \<and> find_tag (Tag ''span'' [(''class'', StrList [''titleline''])]
        [Element (Tag ''a'' [(''name'', Str ''top'')] [NavigableString ''Foo''])]) ''a''
       = Some (Tag ''a'' [(''name'', Str ''top'')] [NavigableString ''Foo''])
   \<and> get (Tag ''a'' [(''name'', Str ''top'')] [NavigableString ''Foo'']) ''href'' = None
   \<and> create_story (Tag ''span'' [(''class'', StrList [''titleline''])]
        [Element (Tag ''a'' [(''name'', Str ''top'')] [NavigableString ''Foo''])])
        (subtext_cell ''1 point'') = Inr None"
proof -
  let ?l1 = "Tag ''span'' [(''class'', StrList [''titleline''])] [NavigableString ''Foo'']"
  let ?a = "Tag ''a'' [(''name'', Str ''top'')] [NavigableString ''Foo'']"
  let ?l2 = "Tag ''span'' [(''class'', StrList [''titleline''])] [Element ?a]"
  have none: "find_tag ?l1 ''a'' = None"
    by code_simp
  have some: "find_tag ?l2 ''a'' = Some ?a"
    by code_simp
  have nohref: "get ?a ''href'' = None"
    by code_simp
  have h1: "find_tag ?l1 ''a'' = None
           \<or> (\<exists>a_tag. find_tag ?l1 ''a'' = Some a_tag \<and> get a_tag ''href'' = None)"
    using none by simp
  have h2: "find_tag ?l2 ''a'' = None
           \<or> (\<exists>a_tag. find_tag ?l2 ''a'' = Some a_tag \<and> get a_tag ''href'' = None)"
    using some nohref by simp
  from skip_property [OF h1, of "subtext_cell ''500 points''"]
    skip_property [OF h2, of "subtext_cell ''1 point''"]
  show ?thesis
    using none some nohref by simp
qed

text \<open>
  C8 (missing score). If the metadata node has no score element, \<open>extract_score\<close> returns
  0, \<open>create_story\<close> returns \<open>None\<close> for every link node, and the pair adds nothing to the
  run: \<open>create_custom_hn\<close> gives the result it gives without the pair.
\<close>

theorem missing_score_default:
  assumes "select_class subtext_item ''score'' = []"
  shows "extract_score subtext_item = Inr 0
     \<and> create_story link subtext_item = Inr None
     \<and> (length ls = length ss \<longrightarrow>
          create_custom_hn (ls @ link # ls') (ss @ subtext_item # ss')
            = create_custom_hn (ls @ ls') (ss @ ss'))"
proof (intro conjI impI)
  show score: "extract_score subtext_item = Inr 0"
    using assms by (simp add: extract_score_def)
  then show story: "create_story link subtext_item = Inr None"
    by (simp add: create_story_def split: option.splits)
  assume len: "length ls = length ss"
  have step: "pairs_run (link # ls') (subtext_item # ss') = pairs_run ls' ss'"
    using story by (simp split: sum.splits)
  have "pairs_run (ls @ link # ls') (ss @ subtext_item # ss') = pairs_run (ls @ ls') (ss @ ss')"
    by (simp only: pairs_run_append [OF len] step)
  then show "create_custom_hn (ls @ link # ls') (ss @ subtext_item # ss')
            = create_custom_hn (ls @ ls') (ss @ ss')"
    by (simp add: create_custom_hn_pairs_run)
qed

text \<open>C8 at a metadata node that has an age but no score, between two scored pairs.\<close>

theorem missing_score_default_witness:
  "select_class (Tag ''td'' [(''class'', StrList [''subtext''])]
       [Element (Tag ''span'' [(''class'', StrList [''age''])] [NavigableString ''2 hours ago''])])
     ''score'' = []
   \<and> extract_score (Tag ''td'' [(''class'', StrList [''subtext''])]
       [Element (Tag ''span'' [(''class'', StrList [''age''])] [NavigableString ''2 hours ago''])])
     = Inr 0
   \<and> create_story (titleline ''Job'' ''http://j'')
       (Tag ''td'' [(''class'', StrList [''subtext''])]
         [Element (Tag ''span'' [(''class'', StrList [''age''])] [NavigableString ''2 hours ago''])])
     = Inr None
   \<and> create_custom_hn
       [titleline ''Foo'' ''http://a'', titleline ''Job'' ''http://j'', titleline ''Bar'' ''http://b'']
       [subtext_cell ''150 points'',
        Tag ''td'' [(''class'', StrList [''subtext''])]
         [Element (Tag ''span'' [(''class'', StrList [''age''])] [NavigableString ''2 hours ago''])],
        subtext_cell ''500 points'']
     = Inr [\<lparr>Title = ''Bar'', href = Str ''http://b'', Score = 500\<rparr>,
            \<lparr>Title = ''Foo'', href = Str ''http://a'', Score = 150\<rparr>]"
proof -
  let ?s = "Tag ''td'' [(''class'', StrList [''subtext''])]
       [Element (Tag ''span'' [(''class'', StrList [''age''])] [NavigableString ''2 hours ago''])]"
  have novote: "select_class ?s ''score'' = []"
    by code_simp
  have rest: "create_custom_hn
       ([titleline ''Foo'' ''http://a''] @ [titleline ''Bar'' ''http://b''])
       ([subtext_cell ''150 points''] @ [subtext_cell ''500 points''])
     = Inr [\<lparr>Title = ''Bar'', href = Str ''http://b'', Score = 500\<rparr>,
            \<lparr>Title = ''Foo'', href = Str ''http://a'', Score = 150\<rparr>]"
    by code_simp
  from missing_score_default [OF novote, of "titleline ''Job'' ''http://j''"
      "[titleline ''Foo'' ''http://a'']" "[subtext_cell ''150 points'']"
      "[titleline ''Bar'' ''http://b'']" "[subtext_cell ''500 points'']"]
  show ?thesis
    using novote rest by simp
qed

text \<open>
  C9 (empty href). If the anchor that \<open>find\<close> returns has an \<open>href\<close> attribute whose value
  is the empty string, \<open>create_story\<close> returns \<open>None\<close>, and the pipeline on that pair
  returns no story: the test is on the truth of the value, not on its presence.
\<close>

theorem empty_href_skipped:
  assumes "find_tag link ''a'' = Some a_tag" and "get a_tag ''href'' = Some (Str '''')"
  shows "create_story link subtext_item = Inr None
     \<and> create_custom_hn [link] [subtext_item] = Inr []"
proof -
  have story: "create_story link subtext_item = Inr None"
    using assms by (simp add: create_story_def)
  have "sort_stories_by_votes [] = []"
    by (simp add: sort_stories_by_votes_def sorted_py_def)
  with story show ?thesis
    by (simp add: create_custom_hn_def)
qed

text \<open>C9 at an anchor with \<open>href=""\<close> paired with a score of 500.\<close>

theorem empty_href_skipped_witness:
  "find_tag (titleline ''Foo'' '''') ''a'' = Some (Tag ''a'' [(''href'', Str '''')] [NavigableString ''Foo''])
   \<and> get (Tag ''a'' [(''href'', Str '''')] [NavigableString ''Foo'']) ''href'' = Some (Str '''')
   \<and> create_story (titleline ''Foo'' '''') (subtext_cell ''500 points'') = Inr None
   \<and> create_custom_hn [titleline ''Foo'' ''''] [subtext_cell ''500 points''] = Inr []"
proof -
  let ?a = "Tag ''a'' [(''href'', Str '''')] [NavigableString ''Foo'']"
  have anchor: "find_tag (titleline ''Foo'' '''') ''a'' = Some ?a"
    by code_simp
  have url: "get ?a ''href'' = Some (Str '''')"
    by code_simp
  from empty_href_skipped [OF anchor url, of "subtext_cell ''500 points''"] show ?thesis
    using anchor url by simp
qed

text \<open>
  C10 (frame). \<open>sort_stories_by_votes\<close> returns a list object other than the one it was
  given, holding the sorted stories; the object it was given, and every other list object
  of the store, holds after the call what it held before.
\<close>

theorem sort_leaves_input:
  assumes "stories < length h"
  shows "\<exists>new h'. sort_stories_by_votes_store h stories = Some (new, h')
           \<and> new \<noteq> stories
           \<and> h' ! stories = h ! stories
           \<and> take (length h) h' = h
           \<and> h' ! new = sort_stories_by_votes (h ! stories)"
  using assms
  by (simp add: sort_stories_by_votes_store_def list_new_def list_sort_def
      sort_stories_by_votes_def nth_append)

text \<open>C10 at a list of two stories in ascending order: the new object holds them in
  descending order, the old one is as it was.\<close>

theorem sort_leaves_input_witness:
  "sort_stories_by_votes_store
     [[\<lparr>Title = ''A'', href = Str ''a'', Score = 150\<rparr>,
       \<lparr>Title = ''B'', href = Str ''b'', Score = 500\<rparr>]] 0
   = Some (1, [[\<lparr>Title = ''A'', href = Str ''a'', Score = 150\<rparr>,
                \<lparr>Title = ''B'', href = Str ''b'', Score = 500\<rparr>],
               [\<lparr>Title = ''B'', href = Str ''b'', Score = 500\<rparr>,
                \<lparr>Title = ''A'', href = Str ''a'', Score = 150\<rparr>]])"
  using sort_leaves_input [of 0 "[[\<lparr>Title = ''A'', href = Str ''a'', Score = 150\<rparr>,
       \<lparr>Title = ''B'', href = Str ''b'', Score = 500\<rparr>]]"]
  by (simp add: sort_stories_by_votes_store_def list_new_def list_sort_def
      sort_stories_by_votes_def sorted_py_def)

end
